theory Spec2Isabelle
  imports Complex_Main
begin

section \<open>Pattern memory engine of the autofill AI service\<close>

text \<open>
  A shallow embedding of \<^verbatim>\<open>ai-service/pattern_service.py\<close> (\<^verbatim>\<open>search_pattern\<close>,
  \<^verbatim>\<open>read_patterns\<close>, \<^verbatim>\<open>save_pattern\<close>), of \<^verbatim>\<open>resume_service.py\<close>
  (\<^verbatim>\<open>save_user_profile\<close>) and of the \<^verbatim>\<open>/predict\<close> handler of
  \<^verbatim>\<open>ai-service/app.py\<close>.

  Conventions of the model:
  \<^item> a Python \<^verbatim>\<open>str\<close> is a \<open>string\<close>; inputs are taken to be ASCII, so that
    \<^verbatim>\<open>lower()\<close>, \<^verbatim>\<open>strip()\<close> and \<^verbatim>\<open>split()\<close> act on the ASCII letters and
    the ASCII whitespace characters;
  \<^item> a Python \<^verbatim>\<open>float\<close> (a confidence, a similarity, a threshold) is a rational
    number and \<^verbatim>\<open>/\<close> is exact division;
  \<^item> every call of \<^verbatim>\<open>execute()\<close> is one request to the store. The store is a
    parameter \<open>exec\<close> that maps a world and a request to a response and the next world;
    \<^verbatim>\<open>execute()\<close> catches every exception and turns it into a response with an
    error, so a store call never raises;
  \<^item> a JSON row is a record with the columns the code reads; an absent key and a
    \<^verbatim>\<open>null\<close> are the falsy default of the column (\<open>[]\<close>, \<open>''''\<close>, \<open>None\<close>).
\<close>

subsection \<open>Strings: \<^verbatim>\<open>lower\<close>, \<^verbatim>\<open>strip\<close>, \<^verbatim>\<open>split\<close>, \<^verbatim>\<open>in\<close>\<close>

definition is_space :: "char \<Rightarrow> bool" where
  "is_space c = (c \<in> set [CHR 0x09, CHR 0x0A, CHR 0x0B, CHR 0x0C, CHR 0x0D,
                            CHR 0x1C, CHR 0x1D, CHR 0x1E, CHR 0x1F, CHR 0x20])"

definition lower_char :: "char \<Rightarrow> char" where
  "lower_char c =
     (case map_of (zip ''ABCDEFGHIJKLMNOPQRSTUVWXYZ'' ''abcdefghijklmnopqrstuvwxyz'') c of
        None \<Rightarrow> c
      | Some d \<Rightarrow> d)"

definition lower :: "string \<Rightarrow> string" where
  "lower s = map lower_char s"

definition strip :: "string \<Rightarrow> string" where
  "strip s = rev (dropWhile is_space (rev (dropWhile is_space s)))"

text \<open>\<^verbatim>\<open>s.split()\<close>: the maximal runs of non-whitespace characters, in order.\<close>

fun split_acc :: "string \<Rightarrow> string \<Rightarrow> string list" where
  "split_acc cur [] = (if cur = [] then [] else [cur])"
| "split_acc cur (c # cs) =
     (if is_space c then (if cur = [] then split_acc [] cs else cur # split_acc [] cs)
      else split_acc (cur @ [c]) cs)"

definition split :: "string \<Rightarrow> string list" where
  "split s = split_acc [] s"

text \<open>\<^verbatim>\<open>sub in s\<close> on strings: \<open>sub\<close> occurs in \<open>s\<close> as a contiguous block.\<close>

fun starts_with :: "string \<Rightarrow> string \<Rightarrow> bool" where
  "starts_with s [] = True"
| "starts_with [] (c # sub) = False"
| "starts_with (d # s) (c # sub) = (d = c \<and> starts_with s sub)"

fun str_in :: "string \<Rightarrow> string \<Rightarrow> bool" where
  "str_in sub [] = (sub = [])"
| "str_in sub (d # s) = (starts_with (d # s) sub \<or> str_in sub s)"

subsection \<open>Data model\<close>

text \<open>One entry of \<^verbatim>\<open>answerMappings\<close> / \<^verbatim>\<open>answer_mappings\<close>.\<close>

record answer_mapping =
  canonicalValue :: string
  variants :: "string list"
  contextOptions :: "string list"

text \<open>The pydantic model \<^verbatim>\<open>Pattern\<close>, as \<^verbatim>\<open>pattern.dict()\<close> is read by \<^verbatim>\<open>save_pattern\<close>.\<close>

record pattern =
  questionPattern :: string
  intent :: string
  canonicalKey :: "string option"
  fieldType :: "string option"
  confidence :: rat
  source :: string
  answerMappings :: "answer_mapping list"
  createdAt :: "string option"

text \<open>A row of \<^verbatim>\<open>learned_patterns\<close> or of \<^verbatim>\<open>global_patterns\<close>.\<close>

record db_row =
  row_id :: string
  user_email :: string
  question_pattern :: string
  row_intent :: string
  canonical_key :: "string option"
  field_type :: "string option"
  row_confidence :: rat
  answer_mappings :: "answer_mapping list"
  last_used :: string
  created_at :: string

text \<open>The dictionary \<^verbatim>\<open>search_pattern\<close> returns ("extension format").\<close>

record match =
  m_id :: string
  m_questionPattern :: string
  m_intent :: string
  m_canonicalKey :: "string option"
  m_answerMappings :: "answer_mapping list"

text \<open>The profile document passed to \<^verbatim>\<open>save_user_profile\<close> is free-form JSON.\<close>

datatype json = JStr string | JObj "(string \<times> json) list"

record profile_row =
  email :: string
  profile_data :: json
  updated_at :: string

subsection \<open>The store client (\<^verbatim>\<open>supabase_client.py\<close>)\<close>

datatype table = learned_patterns | global_patterns | user_profiles

datatype payload = PatternRow db_row | ProfileRow profile_row

text \<open>
  A request as \<^verbatim>\<open>SupabaseTable\<close> builds it: \<open>Select t cols filters\<close> is a GET with the
  optional \<^verbatim>\<open>select\<close> parameter and the \<^verbatim>\<open>eq\<close> filters; \<open>Insert\<close> is a plain POST;
  \<open>Upsert t row c\<close> is a POST with \<^verbatim>\<open>resolution=merge-duplicates\<close> and the optional
  \<^verbatim>\<open>on_conflict\<close> column.
\<close>

datatype request =
    Select table "string option" "(string \<times> string) list"
  | Insert table payload
  | Upsert table payload "string option"

text \<open>
  \<^verbatim>\<open>SupabaseResponse\<close>: \<open>data\<close> is the list of rows (\<^verbatim>\<open>None\<close> is \<open>[]\<close>, the code
  only tests its truth value), \<open>error\<close> is \<^verbatim>\<open>str(error)\<close> of the error object, or
  \<open>None\<close>.
\<close>

record response =
  data :: "db_row list"
  error :: "string option"

text \<open>Truth value of \<^verbatim>\<open>result.error\<close>.\<close>

definition has_error :: "response \<Rightarrow> bool" where
  "has_error r = (case error r of None \<Rightarrow> False | Some e \<Rightarrow> e \<noteq> [])"

definition error_str :: "response \<Rightarrow> string" where
  "error_str r = (case error r of None \<Rightarrow> ''None'' | Some e \<Rightarrow> e)"

record config =
  FUZZY_MATCH_THRESHOLD :: rat
  PATTERN_MEMORY_CONFIDENCE :: rat

subsection \<open>\<^verbatim>\<open>read_patterns\<close> and \<^verbatim>\<open>search_pattern\<close>\<close>

definition read_patterns :: "('w \<Rightarrow> request \<Rightarrow> response \<times> 'w) \<Rightarrow> 'w \<Rightarrow> db_row list \<times> 'w" where
  "read_patterns exec w =
     (let (result, w1) = exec w (Select global_patterns (Some ''*'') [])
      in if has_error result then ([], w1) else (data result, w1))"

text \<open>The conversion of the DB fields to the extension format.\<close>

definition to_match :: "db_row \<Rightarrow> match" where
  "to_match p = \<lparr>m_id = row_id p, m_questionPattern = question_pattern p,
                 m_intent = row_intent p, m_canonicalKey = canonical_key p,
                 m_answerMappings = answer_mappings p\<rparr>"

text \<open>The loop over the owner's private patterns: exact matches only.\<close>

fun scan_private :: "string \<Rightarrow> db_row list \<Rightarrow> match option" where
  "scan_private question_lower [] = None"
| "scan_private question_lower (p # ps) =
     (if strip (lower (question_pattern p)) = question_lower then Some (to_match p)
      else scan_private question_lower ps)"

text \<open>The similarity test of one global candidate (the body under "Fuzzy match").\<close>

definition fuzzy_hit :: "config \<Rightarrow> string \<Rightarrow> string \<Rightarrow> bool" where
  "fuzzy_hit cfg question_lower pattern_question =
     (let q_words = set (split question_lower);
          p_words = set (split pattern_question)
      in if card q_words > 0 \<and> card p_words > 0
         then let matched_words = q_words \<inter> p_words;
                  similarity = rat_of_nat (card matched_words)
                               / rat_of_nat (max (card q_words) (card p_words))
              in similarity \<ge> FUZZY_MATCH_THRESHOLD cfg
         else False)"

text \<open>The loop over the global patterns: per pattern, the exact test, then the fuzzy test.\<close>

fun scan_global :: "config \<Rightarrow> string \<Rightarrow> db_row list \<Rightarrow> match option" where
  "scan_global cfg question_lower [] = None"
| "scan_global cfg question_lower (p # ps) =
     (let pattern_question = strip (lower (question_pattern p))
      in if pattern_question = question_lower then Some (to_match p)
         else if fuzzy_hit cfg question_lower pattern_question then Some (to_match p)
         else scan_global cfg question_lower ps)"

definition search_global ::
  "config \<Rightarrow> ('w \<Rightarrow> request \<Rightarrow> response \<times> 'w) \<Rightarrow> string \<Rightarrow> 'w \<Rightarrow> match option \<times> 'w" where
  "search_global cfg exec question_lower w =
     (let (patterns, w1) = read_patterns exec w
      in (scan_global cfg question_lower patterns, w1))"

definition search_pattern ::
  "config \<Rightarrow> ('w \<Rightarrow> request \<Rightarrow> response \<times> 'w) \<Rightarrow> string \<Rightarrow> string option \<Rightarrow> 'w
     \<Rightarrow> match option \<times> 'w" where
  "search_pattern cfg exec question user_email_opt w =
     (let question_lower = strip (lower question)
      in case user_email_opt of
           None \<Rightarrow> search_global cfg exec question_lower w
         | Some em \<Rightarrow>
             if em = [] then search_global cfg exec question_lower w
             else
               let (result, w1) = exec w (Select learned_patterns None [(''user_email'', em)])
               in if \<not> has_error result \<and> data result \<noteq> []
                  then (case scan_private question_lower (data result) of
                          Some m \<Rightarrow> (Some m, w1)
                        | None \<Rightarrow> search_global cfg exec question_lower w1)
                  else search_global cfg exec question_lower w1)"

subsection \<open>\<^verbatim>\<open>save_user_profile\<close> and \<^verbatim>\<open>save_pattern\<close>\<close>

text \<open>
  The readings of \<^verbatim>\<open>datetime.now().isoformat()\<close> during one call: for
  \<^verbatim>\<open>last_used\<close>, for \<^verbatim>\<open>created_at\<close> and for the profile's \<^verbatim>\<open>updated_at\<close>.
\<close>

record clock =
  now_last_used :: string
  now_created_at :: string
  now_updated_at :: string

definition save_user_profile ::
  "('w \<Rightarrow> request \<Rightarrow> response \<times> 'w) \<Rightarrow> clock \<Rightarrow> string \<Rightarrow> json \<Rightarrow> 'w \<Rightarrow> bool \<times> 'w" where
  "save_user_profile exec clk em pd w =
     (let clean_data =
            (case pd of
               JObj kvs \<Rightarrow> (case map_of kvs ''profile_data'' of Some v \<Rightarrow> v | None \<Rightarrow> pd)
             | JStr s \<Rightarrow> pd);
          db_data = \<lparr>email = em, profile_data = clean_data, updated_at = now_updated_at clk\<rparr>;
          (result, w1) = exec w (Upsert user_profiles (ProfileRow db_data) (Some ''email''))
      in (True, w1))"

text \<open>The minimal profile of the self-heal: \<^verbatim>\<open>{"personal": {"email": user_email}}\<close>.\<close>

definition stub_profile :: "string \<Rightarrow> json" where
  "stub_profile em = JObj [(''personal'', JObj [(''email'', JStr em)])]"

definition fk_message :: string where
  "fk_message = ''violates foreign key constraint''"

text \<open>
  The deterministic id. \<open>md5_12\<close> stands for
  \<^verbatim>\<open>hashlib.md5(key.encode()).hexdigest()[:12]\<close> and is a parameter.
\<close>

definition pattern_id_of :: "(string \<Rightarrow> string) \<Rightarrow> string \<Rightarrow> string \<Rightarrow> string \<Rightarrow> string" where
  "pattern_id_of md5_12 em normalized_question intent_arg =
     ''pattern_'' @ md5_12 (em @ '':'' @ normalized_question @ '':'' @ intent_arg)"

text \<open>The dictionary \<^verbatim>\<open>db_data\<close> with the freshly computed id.\<close>

definition db_data_of :: "(string \<Rightarrow> string) \<Rightarrow> clock \<Rightarrow> pattern \<Rightarrow> string \<Rightarrow> db_row" where
  "db_data_of md5_12 clk pat em =
     (let normalized_question = strip (lower (questionPattern pat))
      in \<lparr>row_id = pattern_id_of md5_12 em normalized_question (intent pat),
          user_email = em,
          question_pattern = normalized_question,
          row_intent = intent pat,
          canonical_key = canonicalKey pat,
          field_type = fieldType pat,
          row_confidence = confidence pat,
          answer_mappings = answerMappings pat,
          last_used = now_last_used clk,
          created_at = (case createdAt pat of
                          None \<Rightarrow> now_created_at clk
                        | Some t \<Rightarrow> if t = [] then now_created_at clk else t)\<rparr>)"

text \<open>The existence check for this user and normalized question.\<close>

definition existing_query :: "string \<Rightarrow> string \<Rightarrow> request" where
  "existing_query em normalized_question =
     Select learned_patterns (Some ''id'')
       [(''user_email'', em), (''question_pattern'', normalized_question)]"

text \<open>\<^verbatim>\<open>db_data\<close> after the check: the id of the first existing row replaces the fresh one.\<close>

definition row_to_write :: "db_row \<Rightarrow> response \<Rightarrow> db_row" where
  "row_to_write db_data existing =
     (case data existing of
        [] \<Rightarrow> db_data
      | r # rs \<Rightarrow> db_data\<lparr>row_id := row_id r\<rparr>)"

text \<open>The first write: an upsert when the pattern exists, an insert otherwise.\<close>

definition first_write :: "db_row \<Rightarrow> response \<Rightarrow> request" where
  "first_write db_data existing =
     (case data existing of
        [] \<Rightarrow> Insert learned_patterns (PatternRow (row_to_write db_data existing))
      | r # rs \<Rightarrow> Upsert learned_patterns (PatternRow (row_to_write db_data existing)) None)"

definition save_pattern ::
  "(string \<Rightarrow> string) \<Rightarrow> ('w \<Rightarrow> request \<Rightarrow> response \<times> 'w) \<Rightarrow> clock \<Rightarrow> pattern
     \<Rightarrow> string option \<Rightarrow> 'w \<Rightarrow> bool \<times> 'w" where
  "save_pattern md5_12 exec clk pat user_email_opt w =
     (case user_email_opt of
        None \<Rightarrow> (False, w)
      | Some em \<Rightarrow>
          if em = [] then (False, w)
          else
            let db_data = db_data_of md5_12 clk pat em;
                (existing, w1) = exec w (existing_query em (question_pattern db_data));
                (result, w2) = exec w1 (first_write db_data existing);
                (result', w3) =
                   (if has_error result \<and> str_in fk_message (error_str result)
                    then let (ok, w2') = save_user_profile exec clk em (stub_profile em) w2
                         in exec w2' (Upsert learned_patterns
                                        (PatternRow (row_to_write db_data existing)) (Some ''id''))
                    else (result, w2))
            in if has_error result' then (False, w3) else (True, w3))"

subsection \<open>The \<^verbatim>\<open>/predict\<close> handler\<close>

record ai_request =
  question :: string
  req_fieldType :: "string option"
  options :: "string list option"
  userEmail :: "string option"

record ai_response =
  answer :: string
  resp_confidence :: rat
  reasoning :: string
  resp_intent :: "string option"

text \<open>The answer read off a memory match: the first mapping's first variant, else its
  canonical value, else the empty string.\<close>

definition memory_answer :: "match \<Rightarrow> string" where
  "memory_answer memory_match =
     (case m_answerMappings memory_match of
        [] \<Rightarrow> ''''
      | mp # mps \<Rightarrow> (case variants mp of [] \<Rightarrow> canonicalValue mp | v # vs \<Rightarrow> v))"

text \<open>The "hard safety": a null or empty intent becomes \<^verbatim>\<open>"unknown"\<close>.\<close>

definition fix_intent :: "ai_response \<Rightarrow> ai_response" where
  "fix_intent r =
     (case resp_intent r of
        None \<Rightarrow> r\<lparr>resp_intent := Some ''unknown''\<rparr>
      | Some i \<Rightarrow> if i = [] then r\<lparr>resp_intent := Some ''unknown''\<rparr> else r)"

definition learned_pattern :: "ai_request \<Rightarrow> ai_response \<Rightarrow> pattern" where
  "learned_pattern request r =
     \<lparr>questionPattern = strip (lower (question request)),
      intent = (case resp_intent r of None \<Rightarrow> '''' | Some i \<Rightarrow> i),
      canonicalKey = None,
      fieldType = req_fieldType request,
      confidence = resp_confidence r,
      source = ''AI'',
      answerMappings =
        [\<lparr>canonicalValue = answer r, variants = [answer r],
          contextOptions = (case options request of None \<Rightarrow> [] | Some os \<Rightarrow> os)\<rparr>],
      createdAt = None\<rparr>"

text \<open>
  Step 3 of the handler. \<open>save\<close> is the callee bound to the name \<^verbatim>\<open>save_pattern\<close>;
  it returns \<open>Inr ok\<close>, or \<open>Inl e\<close> when it raises. Both its result and its exception
  are discarded (\<^verbatim>\<open>except Exception: pass\<close>).
\<close>

definition learn ::
  "(pattern \<Rightarrow> string option \<Rightarrow> 'w \<Rightarrow> (string + bool) \<times> 'w) \<Rightarrow> ai_request \<Rightarrow> ai_response
     \<Rightarrow> 'w \<Rightarrow> 'w" where
  "learn save request r w =
     (if answer r \<noteq> [] \<and> resp_confidence r \<ge> 70 / 100
      then snd (save (learned_pattern request r) (userEmail request) w)
      else w)"

text \<open>
  Steps 2 and 3. \<open>predict_answer\<close> is the external predictor; \<open>Inl e\<close> is an exception,
  which the handler does not catch.
\<close>

definition ai_fallback ::
  "(pattern \<Rightarrow> string option \<Rightarrow> 'w \<Rightarrow> (string + bool) \<times> 'w)
     \<Rightarrow> (ai_request \<Rightarrow> string + ai_response) \<Rightarrow> ai_request \<Rightarrow> 'w
     \<Rightarrow> (string + ai_response) \<times> 'w" where
  "ai_fallback save predict_answer request w =
     (case predict_answer request of
        Inl e \<Rightarrow> (Inl e, w)
      | Inr r \<Rightarrow> let r' = fix_intent r in (Inr r', learn save request r' w))"

definition predict_with ::
  "(pattern \<Rightarrow> string option \<Rightarrow> 'w \<Rightarrow> (string + bool) \<times> 'w) \<Rightarrow> config
     \<Rightarrow> ('w \<Rightarrow> request \<Rightarrow> response \<times> 'w) \<Rightarrow> (ai_request \<Rightarrow> string + ai_response)
     \<Rightarrow> ai_request \<Rightarrow> 'w \<Rightarrow> (string + ai_response) \<times> 'w" where
  "predict_with save cfg exec predict_answer request w =
     (let (memory_match, w1) = search_pattern cfg exec (question request) None w
      in case memory_match of
           None \<Rightarrow> ai_fallback save predict_answer request w1
         | Some m \<Rightarrow>
             if memory_answer m \<noteq> []
             then (Inr \<lparr>answer = memory_answer m,
                        resp_confidence = PATTERN_MEMORY_CONFIDENCE cfg,
                        reasoning = ''Retrieved from Pattern Memory'',
                        resp_intent = Some (m_intent m)\<rparr>, w1)
             else ai_fallback save predict_answer request w1)"

text \<open>The handler as deployed: the callee is \<open>save_pattern\<close>, which never raises.\<close>

definition call_save_pattern ::
  "(string \<Rightarrow> string) \<Rightarrow> ('w \<Rightarrow> request \<Rightarrow> response \<times> 'w) \<Rightarrow> clock \<Rightarrow> pattern
     \<Rightarrow> string option \<Rightarrow> 'w \<Rightarrow> (string + bool) \<times> 'w" where
  "call_save_pattern md5_12 exec clk pat em w =
     (let (ok, w1) = save_pattern md5_12 exec clk pat em w in (Inr ok, w1))"

definition predict ::
  "(string \<Rightarrow> string) \<Rightarrow> clock \<Rightarrow> config \<Rightarrow> ('w \<Rightarrow> request \<Rightarrow> response \<times> 'w)
     \<Rightarrow> (ai_request \<Rightarrow> string + ai_response) \<Rightarrow> ai_request \<Rightarrow> 'w
     \<Rightarrow> (string + ai_response) \<times> 'w" where
  "predict md5_12 clk cfg exec predict_answer request w =
     predict_with (call_save_pattern md5_12 exec clk) cfg exec predict_answer request w"

subsection \<open>Observing the calls\<close>

text \<open>
  The requests a run sends to the store, in order: the world is paired with a log and
  every \<^verbatim>\<open>execute()\<close> appends its request.
\<close>

definition logged ::
  "('w \<Rightarrow> request \<Rightarrow> response \<times> 'w) \<Rightarrow> 'w \<times> request list \<Rightarrow> request
     \<Rightarrow> response \<times> ('w \<times> request list)" where
  "logged exec wl rq =
     (let (resp, w1) = exec (fst wl) rq in (resp, (w1, snd wl @ [rq])))"

text \<open>
  The invocations of \<^verbatim>\<open>save_pattern\<close> made by the handler, in order: the world is
  paired with the list of argument pairs, the store acts on the first component.
\<close>

definition counting ::
  "(pattern \<Rightarrow> string option \<Rightarrow> 'w \<Rightarrow> (string + bool) \<times> 'w) \<Rightarrow> pattern \<Rightarrow> string option
     \<Rightarrow> 'w \<times> (pattern \<times> string option) list
     \<Rightarrow> (string + bool) \<times> ('w \<times> (pattern \<times> string option) list)" where
  "counting save pat em wc =
     (let (res, w1) = save pat em (fst wc) in (res, (w1, snd wc @ [(pat, em)])))"

definition on_fst ::
  "('w \<Rightarrow> request \<Rightarrow> response \<times> 'w) \<Rightarrow> 'w \<times> 'c \<Rightarrow> request \<Rightarrow> response \<times> ('w \<times> 'c)" where
  "on_fst exec wc rq = (let (resp, w1) = exec (fst wc) rq in (resp, (w1, snd wc)))"

subsection \<open>A reference store\<close>

text \<open>
  Modelled from the spec: the relational store behind \<^verbatim>\<open>supabase_client.py\<close> is an
  external service. The spec (sections 4.4, 5 and 6) gives its contract: \<open>select\<close> by
  equality filters, \<open>insert\<close>, and \<open>upsert\<close> that merges on conflict by identity; a row of
  \<^verbatim>\<open>learned_patterns\<close> whose owner has no profile row is refused with a
  referential-integrity violation. Rows are kept in store-iteration order.
\<close>

record db =
  tbl_learned :: "db_row list"
  tbl_global :: "db_row list"
  tbl_profiles :: "profile_row list"

definition ok_response :: "db_row list \<Rightarrow> response" where
  "ok_response rows = \<lparr>data = rows, error = None\<rparr>"

definition err_response :: "string \<Rightarrow> response" where
  "err_response e = \<lparr>data = [], error = Some e\<rparr>"

definition column :: "string \<Rightarrow> db_row \<Rightarrow> string option" where
  "column c r =
     (if c = ''id'' then Some (row_id r)
      else if c = ''user_email'' then Some (user_email r)
      else if c = ''question_pattern'' then Some (question_pattern r)
      else if c = ''intent'' then Some (row_intent r)
      else None)"

definition satisfies :: "(string \<times> string) list \<Rightarrow> db_row \<Rightarrow> bool" where
  "satisfies filters r = list_all (\<lambda>f. column (fst f) r = Some (snd f)) filters"

definition has_profile :: "db \<Rightarrow> string \<Rightarrow> bool" where
  "has_profile d em = (em \<in> set (map email (tbl_profiles d)))"

definition put_row :: "db_row \<Rightarrow> db_row list \<Rightarrow> db_row list" where
  "put_row r rows =
     (if row_id r \<in> set (map row_id rows)
      then map (\<lambda>x. if row_id x = row_id r then r else x) rows
      else rows @ [r])"

definition put_profile :: "profile_row \<Rightarrow> profile_row list \<Rightarrow> profile_row list" where
  "put_profile p rows =
     (if email p \<in> set (map email rows)
      then map (\<lambda>x. if email x = email p then p else x) rows
      else rows @ [p])"

definition fk_error :: string where
  "fk_error = ''insert or update on table learned_patterns violates foreign key constraint learned_patterns_user_email_fkey''"

definition pk_error :: string where
  "pk_error = ''duplicate key value violates unique constraint learned_patterns_pkey''"

fun db_exec :: "db \<Rightarrow> request \<Rightarrow> response \<times> db" where
  "db_exec d (Select learned_patterns cols filters) =
     (ok_response (filter (satisfies filters) (tbl_learned d)), d)"
| "db_exec d (Select global_patterns cols filters) =
     (ok_response (filter (satisfies filters) (tbl_global d)), d)"
| "db_exec d (Insert learned_patterns (PatternRow r)) =
     (if \<not> has_profile d (user_email r) then (err_response fk_error, d)
      else if row_id r \<in> set (map row_id (tbl_learned d)) then (err_response pk_error, d)
      else (ok_response [r], d\<lparr>tbl_learned := tbl_learned d @ [r]\<rparr>))"
| "db_exec d (Upsert learned_patterns (PatternRow r) conflict) =
     (if conflict \<noteq> None \<and> conflict \<noteq> Some ''id''
      then (err_response ''no unique constraint matches the on_conflict column'', d)
      else if \<not> has_profile d (user_email r) then (err_response fk_error, d)
      else (ok_response [r], d\<lparr>tbl_learned := put_row r (tbl_learned d)\<rparr>))"
| "db_exec d (Upsert user_profiles (ProfileRow p) conflict) =
     (if conflict \<noteq> None \<and> conflict \<noteq> Some ''email''
      then (err_response ''no unique constraint matches the on_conflict column'', d)
      else (ok_response [], d\<lparr>tbl_profiles := put_profile p (tbl_profiles d)\<rparr>))"
| "db_exec d rq = (err_response ''request outside the reference store'', d)"



subsection \<open>The fuzzy match in the words of the specification\<close>

text \<open>
  Section 4.2, step 3b: both texts are tokenized into their sets of whitespace-delimited
  words; the overlap is the size of the intersection over the larger of the two sizes; a
  candidate qualifies when the overlap meets or exceeds the threshold; candidates with no
  words on either side are skipped; the first qualifying candidate in store order wins.
\<close>

definition spec_overlap :: "string \<Rightarrow> string \<Rightarrow> rat" where
  "spec_overlap q c =
     rat_of_nat (card (set (split q) \<inter> set (split c)))
       / rat_of_nat (max (card (set (split q))) (card (set (split c))))"

definition spec_qualifies :: "rat \<Rightarrow> string \<Rightarrow> string \<Rightarrow> bool" where
  "spec_qualifies threshold q c =
     (set (split q) \<noteq> {} \<and> set (split c) \<noteq> {} \<and> spec_overlap q c \<ge> threshold)"

definition spec_first_match :: "rat \<Rightarrow> string \<Rightarrow> db_row list \<Rightarrow> db_row option" where
  "spec_first_match threshold q rows =
     find (\<lambda>p. strip (lower (question_pattern p)) = q
                \<or> spec_qualifies threshold q (strip (lower (question_pattern p)))) rows"

subsection \<open>Sample data\<close>

definition cfg_half :: config where
  "cfg_half = \<lparr>FUZZY_MATCH_THRESHOLD = 1 / 2, PATTERN_MEMORY_CONFIDENCE = 95 / 100\<rparr>"

definition sample_digest :: "string \<Rightarrow> string" where
  "sample_digest key = take 12 (key @ ''000000000000'')"

definition sample_clock :: "string \<Rightarrow> clock" where
  "sample_clock t = \<lparr>now_last_used = t, now_created_at = t, now_updated_at = t\<rparr>"

definition sample_row ::
  "string \<Rightarrow> string \<Rightarrow> string \<Rightarrow> string \<Rightarrow> answer_mapping list \<Rightarrow> db_row" where
  "sample_row i em q it ms =
     \<lparr>row_id = i, user_email = em, question_pattern = q, row_intent = it,
      canonical_key = None, field_type = Some ''text'', row_confidence = 1,
      answer_mappings = ms, last_used = ''2024-01-01T00:00:00'',
      created_at = ''2024-01-01T00:00:00''\<rparr>"

definition sample_mapping :: "string \<Rightarrow> answer_mapping" where
  "sample_mapping a = \<lparr>canonicalValue = a, variants = [a], contextOptions = []\<rparr>"

definition global_db :: "db_row list \<Rightarrow> db" where
  "global_db rows = \<lparr>tbl_learned = [], tbl_global = rows, tbl_profiles = []\<rparr>"

definition sample_request :: "string \<Rightarrow> string option \<Rightarrow> ai_request" where
  "sample_request q em =
     \<lparr>question = q, req_fieldType = Some ''radio'', options = Some [''Male'', ''Female''],
      userEmail = em\<rparr>"

definition sample_answer :: "string \<Rightarrow> rat \<Rightarrow> string option \<Rightarrow> ai_response" where
  "sample_answer a c i =
     \<lparr>answer = a, resp_confidence = c, reasoning = ''model output'', resp_intent = i\<rparr>"

definition owner_db :: "string \<Rightarrow> db_row list \<Rightarrow> db_row list \<Rightarrow> db" where
  "owner_db em private rows =
     \<lparr>tbl_learned = private, tbl_global = rows,
      tbl_profiles = [\<lparr>email = em, profile_data = stub_profile em,
                       updated_at = ''2024-01-01T00:00:00''\<rparr>]\<rparr>"

definition sample_pattern :: "string \<Rightarrow> string \<Rightarrow> rat \<Rightarrow> string \<Rightarrow> pattern" where
  "sample_pattern q it c a =
     \<lparr>questionPattern = q, intent = it, canonicalKey = None, fieldType = Some ''text'',
      confidence = c, source = ''AI'', answerMappings = [sample_mapping a],
      createdAt = None\<rparr>"

text \<open>A callee that raises, as \<^verbatim>\<open>save_pattern\<close> would if the store client threw.\<close>

definition raising_save :: "pattern \<Rightarrow> string option \<Rightarrow> 'w \<Rightarrow> (string + bool) \<times> 'w" where
  "raising_save pat em w = (Inl ''store unavailable'', w)"

text \<open>A store that refuses every request with a referential-integrity violation.\<close>

definition refusing_exec :: "nat \<Rightarrow> request \<Rightarrow> response \<times> nat" where
  "refusing_exec n rq = (err_response fk_error, Suc n)"

section \<open>Properties\<close>

lemmas string_defs = strip_def lower_def lower_char_def is_space_def split_def

lemmas sample_defs = cfg_half_def sample_digest_def sample_clock_def sample_row_def
  sample_mapping_def global_db_def sample_request_def sample_answer_def raising_save_def
  sample_pattern_def

lemmas search_defs = search_pattern_def search_global_def read_patterns_def has_error_def
  ok_response_def err_response_def to_match_def satisfies_def Let_def

lemmas store_defs = logged_def on_fst_def counting_def column_def has_profile_def put_row_def
  put_profile_def fk_error_def pk_error_def fk_message_def error_str_def owner_db_def

subsection \<open>The handler around the search\<close>

lemma search_pattern_on_fst:
  "search_pattern cfg (on_fst exec) q em (w, c) =
     (fst (search_pattern cfg exec q em w), (snd (search_pattern cfg exec q em w), c))"
  by (simp add: search_pattern_def search_global_def read_patterns_def on_fst_def Let_def
           split: option.splits prod.splits)

lemma memory_answer_empty:
  "m_answerMappings m = [] \<or>
   (\<exists>mp mps. m_answerMappings m = mp # mps \<and> variants mp = [] \<and> canonicalValue mp = [])
   \<Longrightarrow> memory_answer m = []"
  by (auto simp: memory_answer_def)

lemma fst_ai_fallback:
  "fst (ai_fallback save pa request w) =
     (case pa request of Inl e \<Rightarrow> Inl e | Inr r \<Rightarrow> Inr (fix_intent r))"
  by (simp add: ai_fallback_def Let_def split: sum.splits)

lemma reaches_ai:
  "(case fst (search_pattern cfg exec (question request) None w) of
      None \<Rightarrow> True | Some m \<Rightarrow> memory_answer m = []) \<Longrightarrow>
   predict_with save cfg exec pa request w =
     ai_fallback save pa request (snd (search_pattern cfg exec (question request) None w))"
  by (cases "search_pattern cfg exec (question request) None w")
     (auto simp: predict_with_def split: option.splits)

lemma calls_ai_fallback:
  "pa request = Inr r \<Longrightarrow>
   snd (snd (ai_fallback (counting save) pa request (w, c))) =
     (if answer r \<noteq> [] \<and> resp_confidence r \<ge> 70 / 100
      then c @ [(learned_pattern request (fix_intent r), userEmail request)] else c)"
  by (simp add: ai_fallback_def learn_def counting_def Let_def fix_intent_def
           split: prod.splits option.splits)

text \<open>
  C10. When the search returns a match whose answer is empty (no mapping, or a first
  mapping with no variant and an empty canonical value), the handler does not answer
  from memory: it runs the AI fallback from the world the search left, which is what it
  does when the search returns nothing.
\<close>

theorem predict_empty_memory_answer_falls_through:
  assumes "fst (search_pattern cfg exec (question request) None w) = mm"
    and "mm = None \<or>
         (\<exists>m. mm = Some m \<and>
            (m_answerMappings m = [] \<or>
             (\<exists>mp mps. m_answerMappings m = mp # mps \<and> variants mp = []
                \<and> canonicalValue mp = [])))"
  shows "predict md5_12 clk cfg exec pa request w =
           ai_fallback (call_save_pattern md5_12 exec clk) pa request
             (snd (search_pattern cfg exec (question request) None w))"
proof -
  have "case mm of None \<Rightarrow> True | Some m \<Rightarrow> memory_answer m = []"
    using assms(2) memory_answer_empty by (auto split: option.splits)
  then show ?thesis
    unfolding predict_def using assms(1) reaches_ai by metis
qed

theorem predict_empty_memory_answer_falls_through_witness:
  "fst (search_pattern cfg_half db_exec
          (question (sample_request ''What is your gender?'' None)) None
          (global_db [sample_row ''g1'' [] ''what is your gender?'' ''eeo.gender'' []]))
     = Some (to_match (sample_row ''g1'' [] ''what is your gender?'' ''eeo.gender'' []))
   \<and> m_answerMappings
       (to_match (sample_row ''g1'' [] ''what is your gender?'' ''eeo.gender'' [])) = []
   \<and> fst (predict sample_digest (sample_clock ''t1'') cfg_half db_exec
             (\<lambda>rq. Inr (sample_answer ''Male'' (1 / 2) None))
             (sample_request ''What is your gender?'' None)
             (global_db [sample_row ''g1'' [] ''what is your gender?'' ''eeo.gender'' []]))
       = Inr (sample_answer ''Male'' (1 / 2) (Some ''unknown''))"
proof -
  let ?row = "sample_row ''g1'' [] ''what is your gender?'' ''eeo.gender'' []"
  let ?rq = "sample_request ''What is your gender?'' None"
  have h1: "fst (search_pattern cfg_half db_exec (question ?rq) None (global_db [?row]))
              = Some (to_match ?row)"
    by (simp add: search_defs sample_defs string_defs)
  have h2: "m_answerMappings (to_match ?row) = []"
    by (simp add: to_match_def sample_row_def)
  have "predict sample_digest (sample_clock ''t1'') cfg_half db_exec
          (\<lambda>rq. Inr (sample_answer ''Male'' (1 / 2) None)) ?rq (global_db [?row])
        = ai_fallback (call_save_pattern sample_digest db_exec (sample_clock ''t1''))
            (\<lambda>rq. Inr (sample_answer ''Male'' (1 / 2) None)) ?rq
            (snd (search_pattern cfg_half db_exec (question ?rq) None (global_db [?row])))"
    using predict_empty_memory_answer_falls_through [OF h1] h2 by blast
  then show ?thesis
    using h1 h2 by (simp add: fst_ai_fallback fix_intent_def sample_answer_def)
qed

text \<open>
  C9. On a request that reaches the AI fallback and clears the learning gate, the
  response is the predictor's answer with the intent made non-empty, whatever the
  callee \<open>save\<close> does: return success, return failure, raise, or change the store. In
  particular the deployed handler returns it, never an error.
\<close>

theorem learning_failure_never_changes_response:
  assumes "case fst (search_pattern cfg exec (question request) None w) of
             None \<Rightarrow> True | Some m \<Rightarrow> memory_answer m = []"
    and "pa request = Inr r"
    and "answer r \<noteq> []"
    and "resp_confidence r \<ge> 70 / 100"
  shows "fst (predict_with save cfg exec pa request w) = Inr (fix_intent r)
       \<and> fst (predict md5_12 clk cfg exec pa request w) = Inr (fix_intent r)"
  using assms by (simp add: predict_def reaches_ai fst_ai_fallback)

theorem learning_failure_never_changes_response_witness:
  "fst (predict_with raising_save cfg_half db_exec
          (\<lambda>rq. Inr (sample_answer ''Male'' (9 / 10) (Some ''eeo.gender'')))
          (sample_request ''What is your gender?'' (Some ''a@x.com'')) (global_db []))
     = Inr (sample_answer ''Male'' (9 / 10) (Some ''eeo.gender''))
   \<and> fst (predict sample_digest (sample_clock ''t1'') cfg_half db_exec
          (\<lambda>rq. Inr (sample_answer ''Male'' (9 / 10) (Some ''eeo.gender'')))
          (sample_request ''What is your gender?'' (Some ''a@x.com'')) (global_db []))
     = Inr (sample_answer ''Male'' (9 / 10) (Some ''eeo.gender''))"
proof -
  let ?rq = "sample_request ''What is your gender?'' (Some ''a@x.com'')"
  let ?r = "sample_answer ''Male'' (9 / 10) (Some ''eeo.gender'')"
  have h1: "case fst (search_pattern cfg_half db_exec (question ?rq) None (global_db [])) of
              None \<Rightarrow> True | Some m \<Rightarrow> memory_answer m = []"
    by (simp add: search_defs sample_defs string_defs)
  have h2: "(\<lambda>rq. Inr ?r) ?rq = (Inr ?r :: string + ai_response)" by simp
  have h3: "answer ?r \<noteq> []" by (simp add: sample_answer_def)
  have h4: "resp_confidence ?r \<ge> 70 / 100" by (simp add: sample_answer_def)
  show ?thesis
    using learning_failure_never_changes_response [OF h1 h2 h3 h4]
    by (simp add: fix_intent_def sample_answer_def)
qed

subsection \<open>The scans\<close>

lemma scan_private_find:
  "scan_private q rows =
     map_option to_match (find (\<lambda>r. strip (lower (question_pattern r)) = q) rows)"
  by (induction rows) auto

lemma fuzzy_hit_spec:
  "fuzzy_hit cfg q c = spec_qualifies (FUZZY_MATCH_THRESHOLD cfg) q c"
  by (auto simp: fuzzy_hit_def spec_qualifies_def spec_overlap_def Let_def card_gt_0_iff)

lemma scan_global_spec:
  "scan_global cfg q rows =
     map_option to_match (spec_first_match (FUZZY_MATCH_THRESHOLD cfg) q rows)"
  by (induction rows) (auto simp: spec_first_match_def fuzzy_hit_spec Let_def)

lemma search_global_db:
  "search_pattern cfg db_exec qtext None d =
     (scan_global cfg (strip (lower qtext)) (tbl_global d), d)"
  by (simp add: search_defs)

lemma scan_global_first:
  assumes "\<forall>x \<in> set pre. strip (lower (question_pattern x)) \<noteq> q
             \<and> \<not> fuzzy_hit cfg q (strip (lower (question_pattern x)))"
    and "strip (lower (question_pattern p)) = q
         \<or> fuzzy_hit cfg q (strip (lower (question_pattern p)))"
  shows "scan_global cfg q (pre @ p # post) = Some (to_match p)"
  using assms by (induction pre) (auto simp: Let_def)

lemma satisfies_user_email:
  "satisfies [(''user_email'', em)] = (\<lambda>r. user_email r = em)"
  by (rule ext) (simp add: satisfies_def column_def)

lemma private_select_db:
  "logged db_exec (d, l) (Select learned_patterns None [(''user_email'', em)]) =
     (ok_response (filter (\<lambda>r. user_email r = em) (tbl_learned d)),
      (d, l @ [Select learned_patterns None [(''user_email'', em)]]))"
  by (simp add: logged_def satisfies_user_email)

lemma find_SomeD: "find P xs = Some x \<Longrightarrow> x \<in> set xs \<and> P x"
  by (induction xs) (auto split: if_splits)

text \<open>
  C7. The similarity test of the code is the fuzzy rule of the specification: both word
  sets non-empty (otherwise the candidate is skipped and nothing is divided) and
  the size of the intersection over the larger size at least the threshold, equality
  included. The global search returns the first pattern in store order that matches
  exactly or passes this test.
\<close>

theorem global_scan_matches_spec_fuzzy_rule:
  "fuzzy_hit cfg q c = spec_qualifies (FUZZY_MATCH_THRESHOLD cfg) q c
   \<and> fst (search_pattern cfg db_exec qtext None d) =
       map_option to_match
         (spec_first_match (FUZZY_MATCH_THRESHOLD cfg) (strip (lower qtext)) (tbl_global d))"
  by (simp add: fuzzy_hit_spec search_global_db scan_global_spec)

theorem global_scan_matches_spec_fuzzy_rule_witness:
  "spec_overlap ''what is your favorite color now'' ''what is your best colour hobby'' = 1 / 2
   \<and> fuzzy_hit cfg_half ''what is your favorite color now'' ''what is your best colour hobby''
   \<and> spec_overlap ''what is your favorite color now'' ''what is the best colour hobby'' = 1 / 3
   \<and> \<not> fuzzy_hit cfg_half ''what is your favorite color now'' ''what is the best colour hobby''
   \<and> \<not> fuzzy_hit cfg_half ''what is your favorite color now'' ''  ''
   \<and> fst (search_pattern cfg_half db_exec ''What is your favorite color now'' None
            (global_db [sample_row ''g1'' [] ''What is the best colour hobby'' ''a'' [],
                        sample_row ''g2'' [] ''  '' ''b'' [],
                        sample_row ''g3'' [] ''What is your best colour hobby'' ''c'' [],
                        sample_row ''g4'' [] ''what is your favorite color now'' ''d'' []]))
       = Some (to_match (sample_row ''g3'' [] ''What is your best colour hobby'' ''c'' []))"
proof -
  let ?q = "''what is your favorite color now''"
  have o1: "spec_overlap ?q ''what is your best colour hobby'' = 1 / 2"
    by (simp add: spec_overlap_def split_def is_space_def)
  have o2: "spec_overlap ?q ''what is the best colour hobby'' = 1 / 3"
    by (simp add: spec_overlap_def split_def is_space_def)
  have s1: "spec_qualifies (1 / 2) ?q ''what is your best colour hobby''"
    using o1 by (simp add: spec_qualifies_def split_def is_space_def)
  have s2: "\<not> spec_qualifies (1 / 2) ?q ''what is the best colour hobby''"
    using o2 by (simp add: spec_qualifies_def)
  have s3: "\<not> spec_qualifies (1 / 2) ?q ''  ''"
    by (simp add: spec_qualifies_def split_def is_space_def)
  have t: "FUZZY_MATCH_THRESHOLD cfg_half = 1 / 2" by (simp add: cfg_half_def)
  have n: "strip (lower ''What is your favorite color now'') = ?q"
          "strip (lower ''What is the best colour hobby'') = ''what is the best colour hobby''"
          "strip (lower ''  '') = []"
          "strip (lower ''What is your best colour hobby'') = ''what is your best colour hobby''"
    by (simp_all add: string_defs)
  have s3': "\<not> spec_qualifies (1 / 2) ?q []"
    by (simp add: spec_qualifies_def split_def)
  show ?thesis
    using global_scan_matches_spec_fuzzy_rule [of cfg_half ?q "''what is your best colour hobby''"
            "''What is your favorite color now''"
            "global_db [sample_row ''g1'' [] ''What is the best colour hobby'' ''a'' [],
                        sample_row ''g2'' [] ''  '' ''b'' [],
                        sample_row ''g3'' [] ''What is your best colour hobby'' ''c'' [],
                        sample_row ''g4'' [] ''what is your favorite color now'' ''d'' []]"]
          global_scan_matches_spec_fuzzy_rule [of cfg_half ?q "''what is the best colour hobby''"]
          global_scan_matches_spec_fuzzy_rule [of cfg_half ?q "''  ''"]
          o1 o2 s1 s2 s3 s3' t n
    by (simp add: spec_first_match_def global_db_def sample_row_def)
qed

text \<open>
  C4, as the code has it. The global patterns are tested one at a time in store order,
  each first for an exact match on the normalized text and then for a fuzzy match; the
  first pattern that passes either test is returned. So a pattern that matches (exactly or
  fuzzily) is returned when no earlier pattern matches exactly or fuzzily.
\<close>

theorem exact_match_returned_unless_earlier_hit:
  assumes "tbl_global d = pre @ p # post"
    and "strip (lower (question_pattern p)) = strip (lower qtext)
         \<or> fuzzy_hit cfg (strip (lower qtext)) (strip (lower (question_pattern p)))"
    and "\<forall>x \<in> set pre. strip (lower (question_pattern x)) \<noteq> strip (lower qtext)
           \<and> \<not> fuzzy_hit cfg (strip (lower qtext)) (strip (lower (question_pattern x)))"
  shows "fst (search_pattern cfg db_exec qtext None d) = Some (to_match p)"
  using assms by (simp add: search_global_db scan_global_first)

theorem exact_match_returned_unless_earlier_hit_witness:
  "fst (search_pattern cfg_half db_exec ''What is your name'' None
          (global_db [sample_row ''g1'' [] ''date of birth'' ''personal.dob'' [],
                      sample_row ''g2'' [] ''What is your name'' ''personal.name'' [],
                      sample_row ''g3'' [] ''what is your name please'' ''personal.name'' []]))
     = Some (to_match (sample_row ''g2'' [] ''What is your name'' ''personal.name'' []))"
proof -
  let ?g1 = "sample_row ''g1'' [] ''date of birth'' ''personal.dob'' []"
  let ?g2 = "sample_row ''g2'' [] ''What is your name'' ''personal.name'' []"
  let ?g3 = "sample_row ''g3'' [] ''what is your name please'' ''personal.name'' []"
  have h1: "tbl_global (global_db [?g1, ?g2, ?g3]) = [?g1] @ ?g2 # [?g3]"
    by (simp add: global_db_def)
  have h2: "strip (lower (question_pattern ?g2)) = strip (lower ''What is your name'')
            \<or> fuzzy_hit cfg_half (strip (lower ''What is your name''))
                 (strip (lower (question_pattern ?g2)))"
    by (simp add: sample_row_def)
  have h3: "\<forall>x \<in> set [?g1]. strip (lower (question_pattern x)) \<noteq> strip (lower ''What is your name'')
              \<and> \<not> fuzzy_hit cfg_half (strip (lower ''What is your name''))
                     (strip (lower (question_pattern x)))"
    by (simp add: sample_row_def string_defs fuzzy_hit_def cfg_half_def)
  show ?thesis
    using exact_match_returned_unless_earlier_hit [OF h1 h2 h3] .
qed

text \<open>
  C4, as the claim states it, fails: with threshold 1/2 the stored pattern
  "what is your name please" shares 4 of 5 words with the query "What is your name" and
  comes first, so it is returned although the next pattern matches exactly.
\<close>

theorem later_exact_match_loses_to_earlier_fuzzy_hit:
  "fst (search_pattern cfg_half db_exec ''What is your name'' None
          (global_db [sample_row ''g1'' [] ''what is your name please'' ''personal.fullName''
                        [sample_mapping ''Bob Stone''],
                      sample_row ''g2'' [] ''what is your name'' ''personal.firstName''
                        [sample_mapping ''Bob'']]))
     = Some (to_match (sample_row ''g1'' [] ''what is your name please'' ''personal.fullName''
                        [sample_mapping ''Bob Stone'']))
   \<and> strip (lower (question_pattern (sample_row ''g2'' [] ''what is your name''
                ''personal.firstName'' [sample_mapping ''Bob'']))) = strip (lower ''What is your name'')
   \<and> strip (lower (question_pattern (sample_row ''g1'' [] ''what is your name please''
                ''personal.fullName'' [sample_mapping ''Bob Stone''])))
       \<noteq> strip (lower ''What is your name'')"
  by (simp add: search_defs sample_defs string_defs fuzzy_hit_def)

text \<open>
  C6. With an owner email given, if one of the owner's private patterns matches the query
  exactly on normalized text, the search returns such a private pattern of that owner,
  and the only request sent to the store is the select on the owner's private patterns:
  the global table is not read, whatever it holds.
\<close>

theorem private_match_wins:
  assumes "em \<noteq> []"
    and "p \<in> set (tbl_learned d)"
    and "user_email p = em"
    and "strip (lower (question_pattern p)) = strip (lower qtext)"
  shows "\<exists>p'. p' \<in> set (tbl_learned d) \<and> user_email p' = em
           \<and> strip (lower (question_pattern p')) = strip (lower qtext)
           \<and> search_pattern cfg (logged db_exec) qtext (Some em) (d, []) =
               (Some (to_match p'),
                (d, [Select learned_patterns None [(''user_email'', em)]]))"
proof -
  let ?rows = "filter (\<lambda>r. user_email r = em) (tbl_learned d)"
  let ?P = "\<lambda>r. strip (lower (question_pattern r)) = strip (lower qtext)"
  have "p \<in> set ?rows" using assms by simp
  then have "\<exists>r \<in> set ?rows. ?P r" using assms(4) by blast
  then obtain p' where f: "find ?P ?rows = Some p'"
    by (cases "find ?P ?rows") (auto simp: find_None_iff)
  then have "p' \<in> set ?rows" and m: "?P p'"
    using find_SomeD [of ?P ?rows p'] by auto
  then have "p' \<in> set (tbl_learned d)" "user_email p' = em" by auto
  moreover from \<open>p \<in> set ?rows\<close> have "?rows \<noteq> []"
    by (metis empty_iff list.set(1))
  then have "search_pattern cfg (logged db_exec) qtext (Some em) (d, []) =
               (Some (to_match p'), (d, [Select learned_patterns None [(''user_email'', em)]]))"
    using assms(1) f
    by (simp add: search_pattern_def private_select_db scan_private_find has_error_def
             ok_response_def Let_def)
  ultimately show ?thesis using m by blast
qed

theorem private_match_wins_witness:
  "search_pattern cfg_half (logged db_exec) ''What is your gender?'' (Some ''a@x.com'')
     (owner_db ''a@x.com''
        [sample_row ''pattern_1'' ''a@x.com'' ''what is your gender?'' ''eeo.gender''
           [sample_mapping ''Male'']]
        [sample_row ''g1'' [] ''what is your gender?'' ''eeo.gender''
           [sample_mapping ''Female'']], [])
   = (Some (to_match (sample_row ''pattern_1'' ''a@x.com'' ''what is your gender?''
                        ''eeo.gender'' [sample_mapping ''Male''])),
      (owner_db ''a@x.com''
        [sample_row ''pattern_1'' ''a@x.com'' ''what is your gender?'' ''eeo.gender''
           [sample_mapping ''Male'']]
        [sample_row ''g1'' [] ''what is your gender?'' ''eeo.gender''
           [sample_mapping ''Female'']],
       [Select learned_patterns None [(''user_email'', ''a@x.com'')]]))"
proof -
  let ?priv = "sample_row ''pattern_1'' ''a@x.com'' ''what is your gender?'' ''eeo.gender''
                 [sample_mapping ''Male'']"
  let ?glob = "sample_row ''g1'' [] ''what is your gender?'' ''eeo.gender''
                 [sample_mapping ''Female'']"
  let ?d = "owner_db ''a@x.com'' [?priv] [?glob]"
  have h1: "''a@x.com'' \<noteq> []" by simp
  have h2: "?priv \<in> set (tbl_learned ?d)" by (simp add: owner_db_def)
  have h3: "user_email ?priv = ''a@x.com''" by (simp add: sample_row_def)
  have h4: "strip (lower (question_pattern ?priv)) = strip (lower ''What is your gender?'')"
    by (simp add: sample_row_def string_defs)
  have s: "set (tbl_learned ?d) = {?priv}" by (simp add: owner_db_def)
  from private_match_wins [OF h1 h2 h3 h4, of cfg_half]
  obtain p' where "p' \<in> set (tbl_learned ?d)"
    and r: "search_pattern cfg_half (logged db_exec) ''What is your gender?'' (Some ''a@x.com'')
              (?d, []) =
            (Some (to_match p'), (?d, [Select learned_patterns None [(''user_email'', ''a@x.com'')]]))"
    by blast
  then have "p' = ?priv" using s by blast
  then show ?thesis using r by simp
qed

subsection \<open>The handler: learning gate, intent, owner\<close>

text \<open>
  C8. On a request that reaches the AI fallback, the handler invokes \<^verbatim>\<open>save_pattern\<close>
  exactly once, with the pattern built from the answer and the request's user email, if
  the answer is non-empty and the confidence is at least 0.70, and not at all otherwise.
  The invocations are counted by \<open>counting\<close>, for every callee.
\<close>

theorem learn_gate_single_write:
  assumes "case fst (search_pattern cfg exec (question request) None w) of
             None \<Rightarrow> True | Some m \<Rightarrow> memory_answer m = []"
    and "pa request = Inr r"
  shows "snd (snd (predict_with (counting save) cfg (on_fst exec) pa request (w, []))) =
           (if answer r \<noteq> [] \<and> resp_confidence r \<ge> 70 / 100
            then [(learned_pattern request (fix_intent r), userEmail request)]
            else [])"
proof -
  have "predict_with (counting save) cfg (on_fst exec) pa request (w, []) =
        ai_fallback (counting save) pa request
          (snd (search_pattern cfg exec (question request) None w), [])"
    using assms(1) by (simp add: reaches_ai search_pattern_on_fst)
  then show ?thesis
    using assms(2) by (simp add: calls_ai_fallback)
qed

theorem learn_gate_single_write_witness:
  "snd (snd (predict_with
               (counting (call_save_pattern sample_digest db_exec (sample_clock ''t1'')))
               cfg_half (on_fst db_exec)
               (\<lambda>rq. Inr (sample_answer ''Male'' (69 / 100) (Some ''eeo.gender'')))
               (sample_request ''What is your gender?'' (Some ''a@x.com''))
               (global_db [], []))) = []
   \<and> snd (snd (predict_with
               (counting (call_save_pattern sample_digest db_exec (sample_clock ''t1'')))
               cfg_half (on_fst db_exec)
               (\<lambda>rq. Inr (sample_answer [] (70 / 100) (Some ''eeo.gender'')))
               (sample_request ''What is your gender?'' (Some ''a@x.com''))
               (global_db [], []))) = []
   \<and> length (snd (snd (predict_with
               (counting (call_save_pattern sample_digest db_exec (sample_clock ''t1'')))
               cfg_half (on_fst db_exec)
               (\<lambda>rq. Inr (sample_answer ''Male'' (70 / 100) (Some ''eeo.gender'')))
               (sample_request ''What is your gender?'' (Some ''a@x.com''))
               (global_db [], [])))) = 1"
proof -
  let ?rq = "sample_request ''What is your gender?'' (Some ''a@x.com'')"
  have h1: "case fst (search_pattern cfg_half db_exec (question ?rq) None (global_db [])) of
              None \<Rightarrow> True | Some m \<Rightarrow> memory_answer m = []"
    by (simp add: search_defs sample_defs string_defs)
  have a: "(\<lambda>rq. Inr (sample_answer ''Male'' (69 / 100) (Some ''eeo.gender''))) ?rq
             = (Inr (sample_answer ''Male'' (69 / 100) (Some ''eeo.gender'')) :: string + ai_response)"
    by simp
  have b: "(\<lambda>rq. Inr (sample_answer [] (70 / 100) (Some ''eeo.gender''))) ?rq
             = (Inr (sample_answer [] (70 / 100) (Some ''eeo.gender'')) :: string + ai_response)"
    by simp
  have c: "(\<lambda>rq. Inr (sample_answer ''Male'' (70 / 100) (Some ''eeo.gender''))) ?rq
             = (Inr (sample_answer ''Male'' (70 / 100) (Some ''eeo.gender'')) :: string + ai_response)"
    by simp
  show ?thesis
    using learn_gate_single_write [OF h1 a] learn_gate_single_write [OF h1 b]
          learn_gate_single_write [OF h1 c]
    by (simp add: sample_answer_def)
qed

text \<open>
  C5, at a failing input. The global store holds a pattern with an empty intent and the
  answer "Male"; the handler answers from memory and returns the stored intent as it is,
  the empty string: the substitution of \<^verbatim>\<open>"unknown"\<close> is applied on the AI path only.
\<close>

theorem predict_memory_hit_returns_stored_empty_intent:
  "fst (predict sample_digest (sample_clock ''t1'') cfg_half db_exec
          (\<lambda>rq. Inr (sample_answer ''Female'' (9 / 10) (Some ''eeo.gender'')))
          (sample_request ''What is your gender?'' None)
          (global_db [sample_row ''g1'' [] ''what is your gender?'' [] [sample_mapping ''Male'']]))
   = Inr \<lparr>answer = ''Male'', resp_confidence = 95 / 100,
          reasoning = ''Retrieved from Pattern Memory'', resp_intent = Some []\<rparr>"
  by (simp add: predict_def predict_with_def memory_answer_def search_defs sample_defs
        string_defs)

text \<open>
  C3, at a failing input. The owner has a private pattern that matches the question, and
  \<^verbatim>\<open>search_pattern\<close> called with the owner's email returns it. The handler calls
  \<^verbatim>\<open>search_pattern\<close> without the email: its only request to the store is the select on
  the global patterns, and the answer comes from the predictor.
\<close>

theorem predict_never_reads_private_patterns:
  "fst (search_pattern cfg_half db_exec ''What is your gender?'' (Some ''a@x.com'')
          (owner_db ''a@x.com''
             [sample_row ''pattern_1'' ''a@x.com'' ''what is your gender?'' ''eeo.gender''
                [sample_mapping ''Male'']] []))
     = Some (to_match (sample_row ''pattern_1'' ''a@x.com'' ''what is your gender?''
                ''eeo.gender'' [sample_mapping ''Male'']))
   \<and> predict sample_digest (sample_clock ''t1'') cfg_half (logged db_exec)
         (\<lambda>rq. Inr (sample_answer ''Female'' (1 / 2) (Some ''eeo.gender'')))
         (sample_request ''What is your gender?'' (Some ''a@x.com''))
         (owner_db ''a@x.com''
             [sample_row ''pattern_1'' ''a@x.com'' ''what is your gender?'' ''eeo.gender''
                [sample_mapping ''Male'']] [], [])
     = (Inr (sample_answer ''Female'' (1 / 2) (Some ''eeo.gender'')),
        (owner_db ''a@x.com''
             [sample_row ''pattern_1'' ''a@x.com'' ''what is your gender?'' ''eeo.gender''
                [sample_mapping ''Male'']] [],
         [Select global_patterns (Some ''*'') []]))"
  by (simp add: predict_def predict_with_def ai_fallback_def learn_def fix_intent_def
        search_defs sample_defs string_defs store_defs)

subsection \<open>The store gateway\<close>

text \<open>
  C2. For every store: when the first write of \<^verbatim>\<open>save_pattern\<close> is answered with an
  error that mentions a foreign-key violation, the requests of the call are exactly four:
  the existence check, the first write, one upsert of the stub profile (the owner's email
  only) on conflict \<^verbatim>\<open>email\<close>, and one upsert of the same row on conflict \<^verbatim>\<open>id\<close>.
  The call returns success if and only if that retry carries no error; nothing follows a
  failed retry.
\<close>

theorem self_heal_single_retry:
  assumes "em \<noteq> []"
    and "exec w (existing_query em (question_pattern (db_data_of md5_12 clk pat em)))
           = (existing, w1)"
    and "exec w1 (first_write (db_data_of md5_12 clk pat em) existing) = (result, w2)"
    and "has_error result"
    and "str_in fk_message (error_str result)"
    and "exec w2 (Upsert user_profiles
                    (ProfileRow \<lparr>email = em, profile_data = stub_profile em,
                                 updated_at = now_updated_at clk\<rparr>) (Some ''email''))
           = (stub_result, w3)"
    and "exec w3 (Upsert learned_patterns
                    (PatternRow (row_to_write (db_data_of md5_12 clk pat em) existing))
                    (Some ''id''))
           = (retry_result, w4)"
  shows "save_pattern md5_12 (logged exec) clk pat (Some em) (w, []) =
           (\<not> has_error retry_result,
            (w4, [existing_query em (question_pattern (db_data_of md5_12 clk pat em)),
                  first_write (db_data_of md5_12 clk pat em) existing,
                  Upsert user_profiles
                    (ProfileRow \<lparr>email = em, profile_data = stub_profile em,
                                 updated_at = now_updated_at clk\<rparr>) (Some ''email''),
                  Upsert learned_patterns
                    (PatternRow (row_to_write (db_data_of md5_12 clk pat em) existing))
                    (Some ''id'')]))"
  using assms
  by (simp add: save_pattern_def logged_def save_user_profile_def stub_profile_def Let_def)

theorem self_heal_single_retry_witness:
  "save_pattern sample_digest (logged refusing_exec) (sample_clock ''t1'')
     (sample_pattern ''Website'' ''personal.website'' (9 / 10) ''x.org'') (Some ''a@x.com'')
     (0, [])
   = (False,
      (4, [existing_query ''a@x.com'' ''website'',
           Insert learned_patterns
             (PatternRow (db_data_of sample_digest (sample_clock ''t1'')
                (sample_pattern ''Website'' ''personal.website'' (9 / 10) ''x.org'') ''a@x.com'')),
           Upsert user_profiles
             (ProfileRow \<lparr>email = ''a@x.com'', profile_data = stub_profile ''a@x.com'',
                          updated_at = ''t1''\<rparr>) (Some ''email''),
           Upsert learned_patterns
             (PatternRow (db_data_of sample_digest (sample_clock ''t1'')
                (sample_pattern ''Website'' ''personal.website'' (9 / 10) ''x.org'') ''a@x.com''))
             (Some ''id'')]))"
proof -
  let ?pat = "sample_pattern ''Website'' ''personal.website'' (9 / 10) ''x.org''"
  let ?clk = "sample_clock ''t1''"
  let ?row = "db_data_of sample_digest ?clk ?pat ''a@x.com''"
  let ?ex = "err_response fk_error"
  have q: "question_pattern ?row = ''website''"
    by (simp add: db_data_of_def sample_pattern_def string_defs Let_def)
  have h1: "''a@x.com'' \<noteq> []" by simp
  have h2: "refusing_exec 0 (existing_query ''a@x.com'' (question_pattern ?row)) = (?ex, 1)"
    by (simp add: refusing_exec_def)
  have h3: "refusing_exec 1 (first_write ?row ?ex) = (?ex, 2)"
    by (simp add: refusing_exec_def)
  have h4: "has_error ?ex"
    by (simp add: has_error_def err_response_def fk_error_def)
  have h5: "str_in fk_message (error_str ?ex)"
    by (simp add: error_str_def err_response_def fk_error_def fk_message_def)
  have h6: "refusing_exec 2 (Upsert user_profiles
              (ProfileRow \<lparr>email = ''a@x.com'', profile_data = stub_profile ''a@x.com'',
                           updated_at = now_updated_at ?clk\<rparr>) (Some ''email'')) = (?ex, 3)"
    by (simp add: refusing_exec_def)
  have h7: "refusing_exec 3 (Upsert learned_patterns (PatternRow (row_to_write ?row ?ex))
              (Some ''id'')) = (?ex, 4)"
    by (simp add: refusing_exec_def)
  have w: "first_write ?row ?ex = Insert learned_patterns (PatternRow ?row)"
          "row_to_write ?row ?ex = ?row"
    by (simp_all add: first_write_def row_to_write_def err_response_def)
  show ?thesis
    using self_heal_single_retry [OF h1 h2 h3 h4 h5 h6 h7] h4 q w
    by (simp add: sample_clock_def)
qed





















end
